theory Spec2Isabelle
  imports Main
begin

section \<open>Event messages and the codec\<close>

text \<open>
  Modelled from the spec: \<^verbatim>\<open>queue/event_message.ts\<close> is not among the sources. An
  EventMessage is a record of a discriminant string \<open>event\<close> and a \<open>payload\<close> the queue
  never inspects; the payload is kept as an opaque string.
\<close>

record EventMessage =
  event :: string
  payload :: string

text \<open>
  Modelled from the spec: the \<open>CancelEventMessage\<close> constructor of
  \<^verbatim>\<open>queue/event_message.ts\<close> produces the \<open>__stream_cancel__\<close> control message.
\<close>

definition CancelEventMessage :: EventMessage where
  "CancelEventMessage = \<lparr>event = ''__stream_cancel__'', payload = []\<rparr>"

type_synonym bytes = string

datatype error = CorruptMessage | SyntaxError | QueueNotFound

text \<open>
  The serializer (\<^verbatim>\<open>queue/JsonPlusSerializer.ts\<close>) is not among the sources and the
  spec leaves its byte layout open, so it is a parameter of every operation that uses
  it: \<open>dumpsTyped\<close> encodes, \<open>loadsTyped\<close> decodes or fails. \<open>JSON_parse\<close> is the host's
  \<open>JSON.parse\<close> as the shared backend applies it to stored bytes when
  \<open>compressMessages\<close> is off, its result taken as a message.
\<close>

record serializer =
  dumpsTyped :: "EventMessage \<Rightarrow> bytes"
  loadsTyped :: "bytes \<Rightarrow> error + EventMessage"
  JSON_parse :: "bytes \<Rightarrow> error + EventMessage"

text \<open>
  A cell of a queue's storage. The local backend keeps either the message itself or
  its encoding in the same array (the source casts between the two types).
\<close>

datatype stored = Raw EventMessage | Encoded bytes

definition encodeData :: "serializer \<Rightarrow> EventMessage \<Rightarrow> bytes" where
  "encodeData S message = dumpsTyped S message"

text \<open>
  \<open>decodeData\<close> hands its argument to the serializer. A cell that holds a message
  rather than bytes is never decoded by the code below (a queue's flag is fixed at
  construction); the model rejects it.
\<close>

fun decodeData :: "serializer \<Rightarrow> stored \<Rightarrow> error + EventMessage" where
  "decodeData S (Encoded serializedMessage) = loadsTyped S serializedMessage"
| "decodeData S (Raw m) = Inl CorruptMessage"

text \<open>\<open>Promise.all\<close> over a list of results: all values in order, or the first failure.\<close>

fun Promise_all :: "('e + 'a) list \<Rightarrow> 'e + 'a list" where
  "Promise_all [] = Inr []"
| "Promise_all (Inl e # rs) = Inl e"
| "Promise_all (Inr v # rs) = (case Promise_all rs of Inl e \<Rightarrow> Inl e | Inr vs \<Rightarrow> Inr (v # vs))"

definition is_terminal :: "EventMessage \<Rightarrow> bool" where
  "is_terminal d \<longleftrightarrow> event d = ''__stream_end__'' \<or> event d = ''__stream_error__''
     \<or> event d = ''__stream_cancel__''"

section \<open>Live-tail consumers\<close>

text \<open>
  \<open>onDataReceive\<close> is an asynchronous generator. Its locals and the place where it
  stands form the consumer's state; the callbacks its body registers (the data handler,
  the abort handler, the 300 ms timer) are closures over the same locals. A queue
  object keeps the consumers its generators have created, so that its \<open>emit\<close> and its
  \<open>abort\<close> can run their callbacks.
\<close>

datatype position = Start | Subscribing | Draining nat | Waiting | Finished

record consumer =
  queue_buf :: "EventMessage list"
  pendingResolve :: bool
  isStreamEnded :: bool
  position :: position
  subscribed :: bool
  abort_listener :: bool
  timeouts :: nat

datatype outcome = Yield EventMessage | Return | Suspend

definition new_consumer :: consumer where
  "new_consumer = \<lparr>queue_buf = [], pendingResolve = False, isStreamEnded = False,
     position = Start, subscribed = False, abort_listener = False, timeouts = 0\<rparr>"

text \<open>The callbacks. \<open>resolve\<close> is the shared tail of all three: wake the awaiting loop.\<close>

definition resolve :: "consumer \<Rightarrow> consumer" where
  "resolve c = (if pendingResolve c then c\<lparr>pendingResolve := False\<rparr> else c)"

definition abortHandler :: "consumer \<Rightarrow> consumer" where
  "abortHandler c = resolve (c\<lparr>isStreamEnded := True\<rparr>)"

definition timeout_fired :: "consumer \<Rightarrow> consumer" where
  "timeout_fired c =
     (if timeouts c = 0 then c else resolve (c\<lparr>isStreamEnded := True, timeouts := timeouts c - 1\<rparr>))"

text \<open>The first part of a data handler: buffer the item, on a control event schedule the timer.\<close>

definition buffer_item :: "EventMessage \<Rightarrow> consumer \<Rightarrow> consumer" where
  "buffer_item d c =
     (let c = c\<lparr>queue_buf := queue_buf c @ [d]\<rparr>
      in if is_terminal d then c\<lparr>timeouts := Suc (timeouts c)\<rparr> else c)"

text \<open>
  What a data handler makes of the item it is given: on the local backend the decoding
  if the queue's flag is set and the item itself if not, on the shared backend always
  the decoding (\<open>handler_reads S True\<close>). \<open>reads_cancel\<close> says that the handler reads the
  item as a \<open>__stream_cancel__\<close> event.
\<close>

definition handler_reads :: "serializer \<Rightarrow> bool \<Rightarrow> stored \<Rightarrow> error + EventMessage" where
  "handler_reads S compress item =
     (if compress then decodeData S item
      else (case item of Raw m \<Rightarrow> Inr m | Encoded b \<Rightarrow> Inl CorruptMessage))"


section \<open>The base queue\<close>

text \<open>
  The fields every queue object carries. \<open>cancelSignal\<close> is the \<open>aborted\<close> flag of the
  object's AbortController; \<open>emitted\<close> is the trace of \<open>dataChange\<close> notifications the
  object has emitted, oldest first; \<open>consumers\<close> are the generators this object's
  \<open>onDataReceive\<close> has created and that have taken their first step, in that order.
  The constructor's arguments are always supplied by the callers modelled here.
\<close>

record BaseStreamQueue =
  queue_id :: string
  compressMessages :: bool
  ttl :: nat
  cancelSignal :: bool
  emitted :: "stored list"
  consumers :: "consumer list"

definition BaseStreamQueue_new :: "string \<Rightarrow> bool \<Rightarrow> nat \<Rightarrow> BaseStreamQueue" where
  "BaseStreamQueue_new i c t =
     \<lparr>queue_id = i, compressMessages = c, ttl = t, cancelSignal = False, emitted = [],
      consumers = []\<rparr>"

definition emit :: "stored \<Rightarrow> 'a BaseStreamQueue_scheme \<Rightarrow> 'a BaseStreamQueue_scheme" where
  "emit d q = q\<lparr>emitted := emitted q @ [d]\<rparr>"

text \<open>
  The listeners of \<open>dataChange\<close> on the local backend (and of the channel on the shared
  one) are the data handlers of the subscribed consumers, by their place in the list.
\<close>

definition listeners :: "'a BaseStreamQueue_scheme \<Rightarrow> nat list" where
  "listeners q = filter (\<lambda>i. subscribed (consumers q ! i)) [0..<length (consumers q)]"

definition update_consumer ::
  "nat \<Rightarrow> (consumer \<Rightarrow> consumer) \<Rightarrow> 'a BaseStreamQueue_scheme \<Rightarrow> 'a BaseStreamQueue_scheme" where
  "update_consumer i f q = q\<lparr>consumers := (consumers q)[i := f (consumers q ! i)]\<rparr>"

text \<open>
  \<open>cancelSignal.abort\<close>: nothing on a signal that is already set; else the flag is set
  and the abort handler of every consumer that has registered one runs.
\<close>

definition abort :: "'a BaseStreamQueue_scheme \<Rightarrow> 'a BaseStreamQueue_scheme" where
  "abort q =
     (if cancelSignal q then q
      else q\<lparr>cancelSignal := True,
             consumers := map (\<lambda>c. if abort_listener c then abortHandler c else c) (consumers q)\<rparr>)"

section \<open>The local backend\<close>

text \<open>
  A queue object refers to its array; two objects may refer to the same array. The
  arrays therefore live in a store, addressed by a number, and a queue holds the address.
\<close>

type_synonym addr = nat

record heap =
  arrays :: "addr \<Rightarrow> stored list"
  next_addr :: addr

definition empty_heap :: heap where
  "empty_heap = \<lparr>arrays = (\<lambda>_. []), next_addr = 0\<rparr>"

definition new_array :: "heap \<Rightarrow> addr \<times> heap" where
  "new_array h = (next_addr h, h\<lparr>arrays := (arrays h)(next_addr h := []), next_addr := Suc (next_addr h)\<rparr>)"

definition array_push :: "addr \<Rightarrow> stored \<Rightarrow> heap \<Rightarrow> heap" where
  "array_push a d h = h\<lparr>arrays := (arrays h)(a := arrays h a @ [d])\<rparr>"

record MemoryStreamQueue = BaseStreamQueue +
  data :: addr

definition MemoryStreamQueue_new :: "string \<Rightarrow> bool \<Rightarrow> nat \<Rightarrow> heap \<Rightarrow> MemoryStreamQueue \<times> heap" where
  "MemoryStreamQueue_new i c t h =
     (let (a, h') = new_array h
      in (BaseStreamQueue.extend (BaseStreamQueue_new i c t) \<lparr>data = a\<rparr>, h'))"

text \<open>What \<open>push\<close> stores for an item: its encoding if the flag is set, else the item.\<close>

definition Memory_cell :: "serializer \<Rightarrow> bool \<Rightarrow> EventMessage \<Rightarrow> stored" where
  "Memory_cell S compress item = (if compress then Encoded (encodeData S item) else Raw item)"

text \<open>
  \<open>push\<close> appends the cell to the array and emits it. The emitter calls the listeners
  at once, inside the push: \<open>Memory_dispatch\<close> runs the data handler of each consumer
  that was subscribed when the emit began, in order. A handler that reads the item as a
  \<open>__stream_cancel__\<close> event calls the queue's \<open>cancel\<close>, which aborts and pushes the cancel
  marker, whose emit calls the listeners again, and so on. Nothing in the code ends this
  nesting while a handler stays subscribed, so the four functions take the nesting depth
  they may still use as their first argument and have no result (\<open>None\<close>) when a handler
  would go deeper. With the flag off no \<open>await\<close> of a pending promise lies between the
  push and the nested \<open>cancel\<close>, so the nesting is that of the calls themselves; with
  the flag on the awaited encoding and decoding are taken as plain sequencing.
\<close>

function Memory_push ::
    "nat \<Rightarrow> serializer \<Rightarrow> EventMessage \<Rightarrow> MemoryStreamQueue \<times> heap \<Rightarrow> (MemoryStreamQueue \<times> heap) option"
  and Memory_dispatch ::
    "nat \<Rightarrow> serializer \<Rightarrow> stored \<Rightarrow> nat list \<Rightarrow> MemoryStreamQueue \<times> heap \<Rightarrow> (MemoryStreamQueue \<times> heap) option"
  and Memory_handleData ::
    "nat \<Rightarrow> serializer \<Rightarrow> stored \<Rightarrow> nat \<Rightarrow> MemoryStreamQueue \<times> heap \<Rightarrow> (MemoryStreamQueue \<times> heap) option"
  and Memory_cancel ::
    "nat \<Rightarrow> serializer \<Rightarrow> MemoryStreamQueue \<times> heap \<Rightarrow> (MemoryStreamQueue \<times> heap) option"
where
  "Memory_push n S item (q, h) =
     (let d = Memory_cell S (compressMessages q) item
      in Memory_dispatch n S d (listeners q) (emit d q, array_push (data q) d h))"
| "Memory_dispatch n S item [] w = Some w"
| "Memory_dispatch n S item (i # rest) w =
     (case Memory_handleData n S item i w of
        None \<Rightarrow> None
      | Some w' \<Rightarrow> Memory_dispatch n S item rest w')"
| "Memory_handleData n S item i (q, h) =
     (case handler_reads S (compressMessages q) item of
        Inl e \<Rightarrow> Some (q, h)
      | Inr d \<Rightarrow>
          (case (if event d = ''__stream_cancel__''
                 then (case n of
                         0 \<Rightarrow> None
                       | Suc k \<Rightarrow> Memory_cancel k S (update_consumer i (buffer_item d) q, h))
                 else Some (update_consumer i (buffer_item d) q, h)) of
             None \<Rightarrow> None
           | Some (q', h') \<Rightarrow> Some (update_consumer i resolve q', h')))"
| "Memory_cancel n S (q, h) = Memory_push n S CancelEventMessage (abort q, h)"
  by pat_completeness auto
termination
  by (relation "measures
        [case_sum (case_sum (\<lambda>(n, _). n) (\<lambda>(n, _). n)) (case_sum (\<lambda>(n, _). n) (\<lambda>(n, _). n)),
         case_sum (case_sum (\<lambda>_. 2) (\<lambda>_. 1)) (case_sum (\<lambda>_. 0) (\<lambda>_. 3)),
         case_sum (case_sum (\<lambda>_. 0) (\<lambda>(_, _, _, is, _). length is)) (\<lambda>_. 0)]") auto

text \<open>
  \<open>getAll\<close> returns the decoded cells if the flag is set, else the array as it is.
\<close>

definition Memory_getAll :: "serializer \<Rightarrow> MemoryStreamQueue \<times> heap \<Rightarrow> error + stored list" where
  "Memory_getAll S = (\<lambda>(q, h).
     if compressMessages q
     then map_sum id (map Raw) (Promise_all (map (decodeData S) (arrays h (data q))))
     else Inr (arrays h (data q)))"

definition Memory_clear :: "MemoryStreamQueue \<times> heap \<Rightarrow> MemoryStreamQueue \<times> heap" where
  "Memory_clear = (\<lambda>(q, h). let (a, h') = new_array h in (q\<lparr>data := a\<rparr>, h'))"

definition Memory_copyToQueue ::
  "string \<Rightarrow> nat option \<Rightarrow> MemoryStreamQueue \<Rightarrow> heap \<Rightarrow> MemoryStreamQueue \<times> heap" where
  "Memory_copyToQueue toId ttl' q h =
     (let d = data q;
          (queue, h') = MemoryStreamQueue_new toId (compressMessages q)
                          (case ttl' of None \<Rightarrow> ttl q | Some t \<Rightarrow> t) h
      in (queue\<lparr>data := d\<rparr>, h'))"

text \<open>
  The scenario of the copy property on the local backend: a fresh queue \<open>fromId\<close>,
  three pushes, the copy, one push to each queue, then both snapshot reads.
\<close>

definition Memory_copy_scenario ::
  "nat \<Rightarrow> serializer \<Rightarrow> bool \<Rightarrow> EventMessage \<Rightarrow> EventMessage \<Rightarrow> EventMessage \<Rightarrow> EventMessage \<Rightarrow> EventMessage
     \<Rightarrow> ((error + stored list) \<times> (error + stored list)) option" where
  "Memory_copy_scenario n S compress a b c d e =
     Option.bind (Memory_push n S a (MemoryStreamQueue_new ''fromId'' compress 300 empty_heap)) (\<lambda>w.
     Option.bind (Memory_push n S b w) (\<lambda>w.
     Option.bind (Memory_push n S c w) (\<lambda>(src, h).
     let (cpy, h) = Memory_copyToQueue ''toId'' None src h in
     Option.bind (Memory_push n S d (src, h)) (\<lambda>(src, h).
     Option.bind (Memory_push n S e (cpy, h)) (\<lambda>(cpy, h).
     Some (Memory_getAll S (src, h), Memory_getAll S (cpy, h)))))))"

section \<open>The shared backend\<close>

text \<open>
  The external store, as far as the queue uses it: keys that hold lists, a time-to-live
  per key, and the trace of messages published on channels. The commands are those the
  source issues; a command on a reachable store succeeds. The clock is not part of the
  model: \<open>expiry\<close> records the time-to-live last set for a key, and no key is evicted.
\<close>

record redis =
  lists :: "string \<rightharpoonup> bytes list"
  expiry :: "string \<rightharpoonup> nat"
  published :: "(string \<times> bytes) list"

definition empty_redis :: redis where
  "empty_redis = \<lparr>lists = Map.empty, expiry = Map.empty, published = []\<rparr>"

text \<open>
  \<open>redis_lRange\<close> is \<open>lRange key 0 -1\<close>: the whole list, empty for an absent key.
  \<open>redis_expire\<close> acts on an existing key only. \<open>redis_copy\<close> is the copy without
  replacement: nothing happens when the source is absent or the destination exists; the
  copy carries the source's expiry.
\<close>

definition redis_lRange :: "string \<Rightarrow> redis \<Rightarrow> bytes list" where
  "redis_lRange key r = (case lists r key of None \<Rightarrow> [] | Some xs \<Rightarrow> xs)"

definition redis_rPush :: "string \<Rightarrow> bytes \<Rightarrow> redis \<Rightarrow> redis" where
  "redis_rPush key v r = r\<lparr>lists := (lists r)(key \<mapsto> redis_lRange key r @ [v])\<rparr>"

definition redis_expire :: "string \<Rightarrow> nat \<Rightarrow> redis \<Rightarrow> redis" where
  "redis_expire key t r = (if lists r key = None then r else r\<lparr>expiry := (expiry r)(key \<mapsto> t)\<rparr>)"

definition redis_publish :: "string \<Rightarrow> bytes \<Rightarrow> redis \<Rightarrow> redis" where
  "redis_publish channel v r = r\<lparr>published := published r @ [(channel, v)]\<rparr>"

definition redis_del :: "string \<Rightarrow> redis \<Rightarrow> redis" where
  "redis_del key r = r\<lparr>lists := (lists r)(key := None), expiry := (expiry r)(key := None)\<rparr>"

definition redis_copy :: "string \<Rightarrow> string \<Rightarrow> redis \<Rightarrow> redis" where
  "redis_copy src dst r =
     (case lists r src of
        None \<Rightarrow> r
      | Some xs \<Rightarrow> if lists r dst = None
                  then r\<lparr>lists := (lists r)(dst \<mapsto> xs), expiry := (expiry r)(dst := expiry r src)\<rparr>
                  else r)"

definition redis_exists :: "string \<Rightarrow> redis \<Rightarrow> nat" where
  "redis_exists key r = (if lists r key = None then 0 else 1)"

record RedisStreamQueue = BaseStreamQueue +
  queueKey :: string
  channelKey :: string
  isConnected :: bool

definition isQueueExist :: "string \<Rightarrow> redis \<Rightarrow> bool" where
  "isQueueExist i r \<longleftrightarrow> redis_exists (''queue:'' @ i) r > 0"

text \<open>
  The constructor first runs the base constructor with the flag \<open>true\<close>
  (\<open>RedisStreamQueue_super\<close>), then its own parameter properties assign the arguments
  to the same fields, then the body sets the keys.
\<close>

definition RedisStreamQueue_super :: "string \<Rightarrow> nat \<Rightarrow> BaseStreamQueue" where
  "RedisStreamQueue_super i t = BaseStreamQueue_new i True t"

definition RedisStreamQueue_new :: "string \<Rightarrow> bool \<Rightarrow> nat \<Rightarrow> RedisStreamQueue" where
  "RedisStreamQueue_new i c t =
     BaseStreamQueue.extend ((RedisStreamQueue_super i t)\<lparr>queue_id := i, compressMessages := c, ttl := t\<rparr>)
       \<lparr>queueKey = ''queue:'' @ i, channelKey = ''channel:'' @ i, isConnected = True\<rparr>"

text \<open>
  \<open>push\<close> on the shared backend. Its consumers listen on the store's channel, not on
  \<open>dataChange\<close>: a published message reaches their handlers later, as a step of its own
  (\<open>Redis_handleMessage\<close>), so this push runs no handler.
\<close>

definition Redis_push :: "serializer \<Rightarrow> EventMessage \<Rightarrow> RedisStreamQueue \<times> redis \<Rightarrow> RedisStreamQueue \<times> redis" where
  "Redis_push S item = (\<lambda>(q, r).
     let serializedData = encodeData S item;
         r = redis_rPush (queueKey q) serializedData r;
         r = redis_expire (queueKey q) (ttl q) r;
         r = redis_publish (channelKey q) serializedData r
     in (emit (Encoded serializedData) q, r))"

definition Redis_getAll :: "serializer \<Rightarrow> RedisStreamQueue \<times> redis \<Rightarrow> error + EventMessage list" where
  "Redis_getAll S = (\<lambda>(q, r).
      let d = redis_lRange (queueKey q) r
      in if d = [] then Inr []
         else if compressMessages q then Promise_all (map (\<lambda>item. decodeData S (Encoded item)) d)
         else Promise_all (map (JSON_parse S) d))"

definition Redis_clear :: "RedisStreamQueue \<times> redis \<Rightarrow> RedisStreamQueue \<times> redis" where
  "Redis_clear = (\<lambda>(q, r). if isConnected q then (q, redis_del (queueKey q) r) else (q, r))"

definition Redis_cancel :: "serializer \<Rightarrow> RedisStreamQueue \<times> redis \<Rightarrow> RedisStreamQueue \<times> redis" where
  "Redis_cancel S = (\<lambda>(q, r). Redis_push S CancelEventMessage (abort q, r))"

definition Redis_copyToQueue ::
  "string \<Rightarrow> nat option \<Rightarrow> RedisStreamQueue \<Rightarrow> redis \<Rightarrow> RedisStreamQueue \<times> redis" where
  "Redis_copyToQueue toId ttl' q r =
     (let t = (case ttl' of None \<Rightarrow> ttl q | Some t \<Rightarrow> t);
          queue = RedisStreamQueue_new toId (compressMessages q) t;
          r = redis_copy (queueKey q) (queueKey queue) r;
          r = redis_expire (queueKey queue) t r
      in (queue, r))"

text \<open>
  The handler of consumer \<open>i\<close> is given a message from the channel: it decodes and
  buffers it, on a \<open>__stream_cancel__\<close> calls the queue's \<open>cancel\<close>, and wakes the loop. A
  handler whose decoding fails does nothing.
\<close>

definition Redis_handleMessage ::
  "serializer \<Rightarrow> bytes \<Rightarrow> nat \<Rightarrow> RedisStreamQueue \<times> redis \<Rightarrow> RedisStreamQueue \<times> redis" where
  "Redis_handleMessage S message i = (\<lambda>(q, r).
     case decodeData S (Encoded message) of
       Inl e \<Rightarrow> (q, r)
     | Inr d \<Rightarrow>
         (let (q', r') = (if event d = ''__stream_cancel__''
                          then Redis_cancel S (update_consumer i (buffer_item d) q, r)
                          else (update_consumer i (buffer_item d) q, r))
          in (update_consumer i resolve q', r')))"

text \<open>The copy scenario on the shared backend, from an empty store; the stored lists are read.\<close>

definition Redis_copy_scenario ::
  "serializer \<Rightarrow> bool \<Rightarrow> EventMessage \<Rightarrow> EventMessage \<Rightarrow> EventMessage \<Rightarrow> EventMessage \<Rightarrow> EventMessage
     \<Rightarrow> bytes list \<times> bytes list" where
  "Redis_copy_scenario S compress a b c d e =
     (let (src, r) = Redis_push S c (Redis_push S b (Redis_push S a
                       (RedisStreamQueue_new ''fromId'' compress 300, empty_redis)));
          (cpy, r) = Redis_copyToQueue ''toId'' None src r;
          (src, r) = Redis_push S d (src, r);
          (cpy, r) = Redis_push S e (cpy, r)
      in (redis_lRange (queueKey src) r, redis_lRange (queueKey cpy) r))"

section \<open>The steps of the generator\<close>

text \<open>
  One call of the generator's \<open>next\<close> runs the body to the next \<open>yield\<close>, to its
  return, or to an \<open>await\<close> of a promise that is still pending.

  The \<open>while\<close> loop from its condition: leave through \<open>finally\<close> when the stream has
  ended or the signal is set, else yield the first buffered item, else await a new
  promise.
\<close>

definition tail_loop :: "bool \<Rightarrow> consumer \<Rightarrow> outcome \<times> consumer" where
  "tail_loop aborted c =
     (if \<not> isStreamEnded c \<and> \<not> aborted
      then (case queue_buf c of
              [] \<Rightarrow> (Suspend, c\<lparr>pendingResolve := True, position := Waiting\<rparr>)
            | item # rest \<Rightarrow> (Yield item, c\<lparr>position := Draining 1\<rparr>))
      else (Return, c\<lparr>subscribed := False, abort_listener := False, position := Finished\<rparr>))"

text \<open>
  Resuming inside the \<open>for\<close> loop over the buffer (the iterator reads the array by index,
  so items pushed meanwhile are reached), and resuming from the awaited promise.
\<close>

definition tail_resume :: "bool \<Rightarrow> consumer \<Rightarrow> outcome \<times> consumer" where
  "tail_resume aborted c =
     (case position c of
        Draining i \<Rightarrow>
          if i < length (queue_buf c)
          then (Yield (queue_buf c ! i), c\<lparr>position := Draining (Suc i)\<rparr>)
          else tail_loop aborted (c\<lparr>queue_buf := []\<rparr>)
      | Waiting \<Rightarrow> if pendingResolve c then (Suspend, c) else tail_loop aborted c
      | Finished \<Rightarrow> (Return, c)
      | _ \<Rightarrow> (Suspend, c))"

definition Memory_onDataReceive :: "MemoryStreamQueue \<Rightarrow> consumer \<Rightarrow> outcome \<times> consumer" where
  "Memory_onDataReceive q c =
     (case position c of
        Start \<Rightarrow>
          if cancelSignal q then (Return, c\<lparr>position := Finished\<rparr>)
          else tail_loop (cancelSignal q) (c\<lparr>subscribed := True, abort_listener := True\<rparr>)
      | _ \<Rightarrow> tail_resume (cancelSignal q) c)"

text \<open>
  On the shared backend the body awaits the channel subscription before it registers
  the abort handler and enters the loop.
\<close>

definition Redis_onDataReceive :: "RedisStreamQueue \<Rightarrow> consumer \<Rightarrow> outcome \<times> consumer" where
  "Redis_onDataReceive q c =
     (case position c of
        Start \<Rightarrow>
          if cancelSignal q then (Return, c\<lparr>position := Finished\<rparr>)
          else (Suspend, c\<lparr>subscribed := True, position := Subscribing\<rparr>)
      | Subscribing \<Rightarrow> tail_loop (cancelSignal q) (c\<lparr>abort_listener := True\<rparr>)
      | _ \<Rightarrow> tail_resume (cancelSignal q) c)"

text \<open>The outcomes of \<open>n\<close> successive calls of \<open>next\<close> with no other step in between.\<close>

fun Memory_nexts :: "nat \<Rightarrow> MemoryStreamQueue \<Rightarrow> consumer \<Rightarrow> outcome list" where
  "Memory_nexts 0 q c = []"
| "Memory_nexts (Suc n) q c =
     (let (out, c') = Memory_onDataReceive q c in out # Memory_nexts n q c')"

fun Redis_nexts :: "nat \<Rightarrow> RedisStreamQueue \<Rightarrow> consumer \<Rightarrow> outcome list" where
  "Redis_nexts 0 q c = []"
| "Redis_nexts (Suc n) q c =
     (let (out, c') = Redis_onDataReceive q c in out # Redis_nexts n q c')"

text \<open>
  A new consumer: the generator is created and takes its first step, after which the
  queue object holds it.
\<close>

definition Memory_attach :: "MemoryStreamQueue \<times> heap \<Rightarrow> MemoryStreamQueue \<times> heap" where
  "Memory_attach = (\<lambda>(q, h). (q\<lparr>consumers := consumers q @ [snd (Memory_onDataReceive q new_consumer)]\<rparr>, h))"

definition Redis_attach :: "RedisStreamQueue \<times> redis \<Rightarrow> RedisStreamQueue \<times> redis" where
  "Redis_attach = (\<lambda>(q, r). (q\<lparr>consumers := consumers q @ [snd (Redis_onDataReceive q new_consumer)]\<rparr>, r))"

section \<open>Sequences of steps\<close>

text \<open>
  What can happen to a queue object and its backend: the producer-side operations, a
  new consumer, a further \<open>next\<close> of consumer \<open>i\<close>, the firing of one of its timers, and,
  on the shared backend only, the store handing a message of the channel to the handler
  of a subscribed consumer.
\<close>

datatype step = Push EventMessage | Clear | Cancel | Attach | Next nat | Timeout nat | Deliver nat bytes

fun Memory_step ::
  "nat \<Rightarrow> serializer \<Rightarrow> step \<Rightarrow> MemoryStreamQueue \<times> heap \<Rightarrow> (MemoryStreamQueue \<times> heap) option" where
  "Memory_step n S (Push item) w = Memory_push n S item w"
| "Memory_step n S Clear w = Some (Memory_clear w)"
| "Memory_step n S Cancel w = Memory_cancel n S w"
| "Memory_step n S Attach w = Some (Memory_attach w)"
| "Memory_step n S (Next i) (q, h) = Some (update_consumer i (\<lambda>c. snd (Memory_onDataReceive q c)) q, h)"
| "Memory_step n S (Timeout i) (q, h) = Some (update_consumer i timeout_fired q, h)"
| "Memory_step n S (Deliver i message) w = Some w"

fun Redis_step :: "serializer \<Rightarrow> step \<Rightarrow> RedisStreamQueue \<times> redis \<Rightarrow> RedisStreamQueue \<times> redis" where
  "Redis_step S (Push item) w = Redis_push S item w"
| "Redis_step S Clear w = Redis_clear w"
| "Redis_step S Cancel w = Redis_cancel S w"
| "Redis_step S Attach w = Redis_attach w"
| "Redis_step S (Next i) (q, r) = (update_consumer i (\<lambda>c. snd (Redis_onDataReceive q c)) q, r)"
| "Redis_step S (Timeout i) (q, r) = (update_consumer i timeout_fired q, r)"
| "Redis_step S (Deliver i message) (q, r) =
     (if i \<in> set (listeners q) then Redis_handleMessage S message i (q, r) else (q, r))"

fun Memory_run ::
  "nat \<Rightarrow> serializer \<Rightarrow> step list \<Rightarrow> MemoryStreamQueue \<times> heap \<Rightarrow> (MemoryStreamQueue \<times> heap) option" where
  "Memory_run n S [] w = Some w"
| "Memory_run n S (st # sts) w =
     (case Memory_step n S st w of None \<Rightarrow> None | Some w' \<Rightarrow> Memory_run n S sts w')"

definition Redis_run :: "serializer \<Rightarrow> step list \<Rightarrow> RedisStreamQueue \<times> redis \<Rightarrow> RedisStreamQueue \<times> redis" where
  "Redis_run S sts w = fold (Redis_step S) sts w"

text \<open>
  How a stored cell reads, and a test on a log: it is non-empty and its last cell is a
  terminal control event.
\<close>

fun read_cell :: "serializer \<Rightarrow> stored \<Rightarrow> error + EventMessage" where
  "read_cell S (Raw m) = Inr m"
| "read_cell S (Encoded b) = loadsTyped S b"

definition ends_terminal :: "serializer \<Rightarrow> stored list \<Rightarrow> bool" where
  "ends_terminal S cells =
     (cells \<noteq> [] \<and> (case read_cell S (last cells) of Inl e \<Rightarrow> False | Inr m \<Rightarrow> is_terminal m))"







section \<open>The queue manager\<close>

text \<open>
  The manager is generic in the queue class. A class is its constructor, the optional
  static existence check, and the methods the manager forwards to; \<open>'w\<close> is the state
  the class works on (the array store, or the external store). \<open>cancel\<close> may have no
  result, as on the local backend.
\<close>

record ('q, 'w) QueueConstructor =
  construct :: "string \<Rightarrow> bool \<Rightarrow> nat \<Rightarrow> 'w \<Rightarrow> 'q \<times> 'w"
  isQueueExist_opt :: "(string \<Rightarrow> 'w \<Rightarrow> bool) option"
  cancel_method :: "'q \<times> 'w \<Rightarrow> ('q \<times> 'w) option"
  clear_method :: "'q \<times> 'w \<Rightarrow> 'q \<times> 'w"

definition Memory_class :: "nat \<Rightarrow> serializer \<Rightarrow> (MemoryStreamQueue, heap) QueueConstructor" where
  "Memory_class n S = \<lparr>construct = MemoryStreamQueue_new, isQueueExist_opt = None,
     cancel_method = Memory_cancel n S, clear_method = Memory_clear\<rparr>"

definition Redis_class :: "serializer \<Rightarrow> (RedisStreamQueue, redis) QueueConstructor" where
  "Redis_class S = \<lparr>construct = (\<lambda>i c t r. (RedisStreamQueue_new i c t, r)),
     isQueueExist_opt = Some isQueueExist,
     cancel_method = (\<lambda>w. Some (Redis_cancel S w)), clear_method = Redis_clear\<rparr>"

text \<open>
  The registry maps an id to the queue object registered under it; an operation that
  changes the object writes it back. \<open>removals\<close> holds the ids whose 500 ms removal
  timer is pending.
\<close>

record 'q StreamQueueManager =
  queues :: "string \<rightharpoonup> 'q"
  defaultCompressMessages :: bool
  removals :: "string list"

definition StreamQueueManager_new :: "bool option \<Rightarrow> 'q StreamQueueManager" where
  "StreamQueueManager_new opt =
     \<lparr>queues = Map.empty,
      defaultCompressMessages = (case opt of None \<Rightarrow> True | Some b \<Rightarrow> b),
      removals = []\<rparr>"

definition createQueue ::
  "('q, 'w) QueueConstructor \<Rightarrow> string \<Rightarrow> nat \<Rightarrow> 'q StreamQueueManager \<times> 'w
     \<Rightarrow> 'q \<times> 'q StreamQueueManager \<times> 'w" where
  "createQueue K i t = (\<lambda>(M, w).
     let (q, w') = construct K i (defaultCompressMessages M) t w
     in (q, M\<lparr>queues := (queues M)(i \<mapsto> q)\<rparr>, w'))"

text \<open>\<open>queueConstructor?.isQueueExist?.(id)\<close>: an absent check counts as "does not exist".\<close>

definition backend_confirms :: "('q, 'w) QueueConstructor \<Rightarrow> string \<Rightarrow> 'w \<Rightarrow> bool" where
  "backend_confirms K i w = (case isQueueExist_opt K of None \<Rightarrow> False | Some f \<Rightarrow> f i w)"

definition getQueue ::
  "('q, 'w) QueueConstructor \<Rightarrow> string \<Rightarrow> 'q StreamQueueManager \<times> 'w
     \<Rightarrow> error + 'q \<times> 'q StreamQueueManager \<times> 'w" where
  "getQueue K i = (\<lambda>(M, w).
     case queues M i of
       None \<Rightarrow> if backend_confirms K i w then Inr (createQueue K i 300 (M, w)) else Inl QueueNotFound
     | Some queue \<Rightarrow> Inr (queue, M, w))"

definition removeQueue :: "string \<Rightarrow> 'q StreamQueueManager \<Rightarrow> 'q StreamQueueManager" where
  "removeQueue i M = M\<lparr>removals := removals M @ [i]\<rparr>"

definition removal_fired :: "'q StreamQueueManager \<Rightarrow> 'q StreamQueueManager" where
  "removal_fired M =
     (case removals M of [] \<Rightarrow> M | i # rest \<Rightarrow> M\<lparr>queues := (queues M)(i := None), removals := rest\<rparr>)"

definition cancelQueue ::
  "('q, 'w) QueueConstructor \<Rightarrow> string \<Rightarrow> 'q StreamQueueManager \<times> 'w
     \<Rightarrow> ('q StreamQueueManager \<times> 'w) option" where
  "cancelQueue K i = (\<lambda>(M, w).
     case queues M i of
       None \<Rightarrow> Some (M, w)
     | Some queue \<Rightarrow>
         (case cancel_method K (queue, w) of
            None \<Rightarrow> None
          | Some (queue', w') \<Rightarrow> Some (removeQueue i (M\<lparr>queues := (queues M)(i \<mapsto> queue')\<rparr>), w')))"

definition clearQueue ::
  "('q, 'w) QueueConstructor \<Rightarrow> string \<Rightarrow> 'q StreamQueueManager \<times> 'w \<Rightarrow> 'q StreamQueueManager \<times> 'w" where
  "clearQueue K i = (\<lambda>(M, w).
     case queues M i of
       None \<Rightarrow> (M, w)
     | Some queue \<Rightarrow>
         (let (queue', w') = clear_method K (queue, w)
          in (M\<lparr>queues := (queues M)(i \<mapsto> queue')\<rparr>, w')))"

section \<open>Sample data\<close>

text \<open>
  The host's \<open>JSON.parse\<close> on the texts that occur below. The text of a JSON object with
  the two string members \<open>event\<close> and \<open>payload\<close>, in that order, written in printable
  ASCII without white space or escapes, is read as that message. A text that is not JSON
  is rejected with a SyntaxError. The definition also answers SyntaxError on every
  other JSON text; none occurs below.
\<close>

definition strip_prefix :: "string \<Rightarrow> string \<Rightarrow> string option" where
  "strip_prefix p s = (if take (length p) s = p then Some (drop (length p) s) else None)"

definition host_JSON_parse :: "bytes \<Rightarrow> error + EventMessage" where
  \<open>host_JSON_parse b =
     (case strip_prefix ''{"event":"'' b of
        None \<Rightarrow> Inl SyntaxError
      | Some r1 \<Rightarrow>
          (case strip_prefix ''","payload":"'' (dropWhile (\<lambda>c. c \<noteq> CHR ''"'') r1) of
             None \<Rightarrow> Inl SyntaxError
           | Some r2 \<Rightarrow>
               if dropWhile (\<lambda>c. c \<noteq> CHR ''"'') r2 = ''"}''
                  \<and> list_all (\<lambda>c. 32 \<le> (of_char c :: nat) \<and> (of_char c :: nat) < 127 \<and> c \<noteq> CHR 0x5C) b
               then Inr \<lparr>event = takeWhile (\<lambda>c. c \<noteq> CHR ''"'') r1,
                          payload = takeWhile (\<lambda>c. c \<noteq> CHR ''"'') r2\<rparr>
               else Inl SyntaxError))\<close>

text \<open>
  Two serializers to run the definitions on. The first writes the discriminant, a bar
  and the payload, and reads by splitting at the first bar; it round-trips every message
  whose discriminant has no bar, and its bytes are not JSON text. The second writes the
  JSON text of the message and reads it with the reader above.
\<close>

definition split_bar :: "string \<Rightarrow> (string \<times> string) option" where
  "split_bar s =
     (if CHR ''|'' \<in> set s
      then Some (takeWhile (\<lambda>c. c \<noteq> CHR ''|'') s, tl (dropWhile (\<lambda>c. c \<noteq> CHR ''|'') s))
      else None)"

definition sample_serializer :: serializer where
  "sample_serializer =
     \<lparr>dumpsTyped = (\<lambda>m. event m @ ''|'' @ payload m),
      loadsTyped = (\<lambda>b. case split_bar b of
                           Some (ev, p) \<Rightarrow> Inr \<lparr>event = ev, payload = p\<rparr>
                         | None \<Rightarrow> Inl CorruptMessage),
      JSON_parse = host_JSON_parse\<rparr>"

definition json_serializer :: serializer where
  \<open>json_serializer =
     \<lparr>dumpsTyped = (\<lambda>m. ''{"event":"'' @ event m @ ''","payload":"'' @ payload m @ ''"}''),
      loadsTyped = (\<lambda>b. case host_JSON_parse b of Inl e \<Rightarrow> Inl CorruptMessage | Inr m \<Rightarrow> Inr m),
      JSON_parse = host_JSON_parse\<rparr>\<close>

definition token_Hi :: EventMessage where
  "token_Hi = \<lparr>event = ''token'', payload = ''Hi''\<rparr>"


definition stream_end :: EventMessage where
  "stream_end = \<lparr>event = ''__stream_end__'', payload = []\<rparr>"

text \<open>
  Sample states: a fresh local queue; the same with one consumer attached; after a
  pushed end event; after a pushed cancel event; after a cancel; and a shared queue
  after a push and after a cancel.
\<close>

definition sample_fresh :: "MemoryStreamQueue \<times> heap" where
  "sample_fresh = MemoryStreamQueue_new ''run-1'' False 300 empty_heap"

definition sample_tailed :: "MemoryStreamQueue \<times> heap" where
  "sample_tailed = Memory_attach sample_fresh"

definition sample_ended :: "MemoryStreamQueue \<times> heap" where
  "sample_ended =
     (emit (Raw stream_end) (fst sample_fresh),
      array_push (data (fst sample_fresh)) (Raw stream_end) (snd sample_fresh))"


definition sample_cancelled :: "MemoryStreamQueue \<times> heap" where
  "sample_cancelled =
     (emit (Raw CancelEventMessage) (abort (fst sample_fresh)),
      array_push (data (fst sample_fresh)) (Raw CancelEventMessage) (snd sample_fresh))"

definition sample_shared :: "RedisStreamQueue \<times> redis" where
  "sample_shared = Redis_push sample_serializer token_Hi (RedisStreamQueue_new ''run-1'' True 300, empty_redis)"

definition sample_shared_cancelled :: "RedisStreamQueue \<times> redis" where
  "sample_shared_cancelled = Redis_cancel sample_serializer sample_shared"

section \<open>Properties\<close>

subsection \<open>Helper facts\<close>

lemma Promise_all_map_Inr:
  "\<forall>x\<in>set xs. f x = Inr (g x) \<Longrightarrow> Promise_all (map f xs) = Inr (map g xs)"
  by (induction xs) simp_all

lemma subscribed_callbacks [simp]:
  "subscribed (resolve c) = subscribed c"
  "subscribed (abortHandler c) = subscribed c"
  "subscribed (buffer_item d c) = subscribed c"
  "subscribed (timeout_fired c) = subscribed c"
  by (simp_all add: resolve_def abortHandler_def buffer_item_def timeout_fired_def Let_def)

lemma listeners_update_consumer:
  assumes "\<And>c. subscribed (f c) = subscribed c"
  shows "listeners (update_consumer i f q) = listeners q"
proof -
  have "subscribed ((consumers q)[i := f (consumers q ! i)] ! j) = subscribed (consumers q ! j)"
    if "j < length (consumers q)" for j
    using that assms by (cases "i = j") simp_all
  then show ?thesis
    by (auto simp add: listeners_def update_consumer_def intro!: filter_cong)
qed

lemma listeners_kept [simp]:
  "listeners (update_consumer i resolve q) = listeners q"
  "listeners (update_consumer i (buffer_item d) q) = listeners q"
  "listeners (update_consumer i timeout_fired q) = listeners q"
  "listeners (emit c q) = listeners q"
  "listeners (abort q) = listeners q"
proof -
  show "listeners (update_consumer i resolve q) = listeners q"
    "listeners (update_consumer i (buffer_item d) q) = listeners q"
    "listeners (update_consumer i timeout_fired q) = listeners q"
    by (simp_all add: listeners_update_consumer)
  show "listeners (emit c q) = listeners q"
    by (simp add: listeners_def emit_def)
  have "subscribed (map (\<lambda>c. if abort_listener c then abortHandler c else c) (consumers q) ! j)
          = subscribed (consumers q ! j)" if "j < length (consumers q)" for j
    using that by simp
  then show "listeners (abort q) = listeners q"
    by (auto simp add: listeners_def abort_def intro!: filter_cong)
qed

lemma fields_kept [simp]:
  "cancelSignal (update_consumer i f q) = cancelSignal q"
  "compressMessages (update_consumer i f q) = compressMessages q"
  "emitted (update_consumer i f q) = emitted q"
  "ttl (update_consumer i f q) = ttl q"
  "cancelSignal (emit c q) = cancelSignal q"
  "compressMessages (emit c q) = compressMessages q"
  "emitted (emit c q) = emitted q @ [c]"
  "consumers (emit c q) = consumers q"
  "ttl (emit c q) = ttl q"
  "cancelSignal (abort q) = True"
  "compressMessages (abort q) = compressMessages q"
  "emitted (abort q) = emitted q"
  "ttl (abort q) = ttl q"
  by (simp_all add: update_consumer_def emit_def abort_def)

lemma Memory_fields_kept [simp]:
  "data (update_consumer i f m) = data m"
  "data (emit c m) = data m"
  "data (abort m) = data m"
  by (simp_all add: update_consumer_def emit_def abort_def)

lemma Redis_fields_kept [simp]:
  "queueKey (update_consumer i f p) = queueKey p"
  "channelKey (update_consumer i f p) = channelKey p"
  "isConnected (update_consumer i f p) = isConnected p"
  "queueKey (emit c p) = queueKey p"
  "channelKey (emit c p) = channelKey p"
  "queueKey (abort p) = queueKey p"
  "channelKey (abort p) = channelKey p"
  by (simp_all add: update_consumer_def emit_def abort_def)

lemma abort_set [simp]: "cancelSignal q \<Longrightarrow> abort q = q"
  by (simp add: abort_def)

text \<open>With no subscribed consumer a push on the local backend is its own two lines.\<close>

lemma Memory_push_unheard:
  "listeners q = [] \<Longrightarrow>
   Memory_push n S item (q, h) =
     Some (emit (Memory_cell S (compressMessages q) item) q,
           array_push (data q) (Memory_cell S (compressMessages q) item) h)"
  by (simp add: Let_def)

lemma Memory_cancel_unheard:
  "listeners q = [] \<Longrightarrow>
   Memory_cancel n S (q, h) =
     Some (emit (Memory_cell S (compressMessages q) CancelEventMessage) (abort q),
           array_push (data q) (Memory_cell S (compressMessages q) CancelEventMessage) h)"
  by (simp add: Let_def)







text \<open>
  No depth is enough: on a queue whose flag is off and that has a subscribed consumer,
  the dispatch of a cancel event has no result, and so has \<open>cancel\<close>.
\<close>

lemma Memory_dispatch_unbounded:
  "\<not> compressMessages q \<Longrightarrow> listeners q \<noteq> [] \<Longrightarrow> event m = ''__stream_cancel__'' \<Longrightarrow>
   Memory_dispatch n S (Raw m) (listeners q) (q, h) = None"
proof (induction n arbitrary: q h m)
  case 0
  then obtain i rest where ls: "listeners q = i # rest" by (cases "listeners q") auto
  with 0 show ?case by (simp add: handler_reads_def)
next
  case (Suc k)
  then obtain i rest where ls: "listeners q = i # rest" by (cases "listeners q") auto
  let ?q = "emit (Raw CancelEventMessage) (abort (update_consumer i (buffer_item m) q))"
  have "Memory_dispatch k S (Raw CancelEventMessage) (listeners ?q)
          (?q, array_push (data q) (Raw CancelEventMessage) h) = None"
    using Suc.prems by (intro Suc.IH) (simp_all add: CancelEventMessage_def)
  then have "Memory_cancel k S (update_consumer i (buffer_item m) q, h) = None"
    using Suc.prems by (simp add: Memory_cell_def Let_def)
  with Suc.prems ls show ?case by (simp add: handler_reads_def)
qed

lemma Memory_cancel_unbounded:
  "\<not> compressMessages q \<Longrightarrow> listeners q \<noteq> [] \<Longrightarrow> Memory_cancel n S (q, h) = None"
  using Memory_dispatch_unbounded
    [of "emit (Raw CancelEventMessage) (abort q)" CancelEventMessage n S
        "array_push (data q) (Raw CancelEventMessage) h"]
  by (simp add: Memory_cell_def Let_def CancelEventMessage_def)

lemma Memory_push_cancel_unbounded:
  "\<not> compressMessages q \<Longrightarrow> listeners q \<noteq> [] \<Longrightarrow> event m = ''__stream_cancel__'' \<Longrightarrow>
   Memory_push n S m (q, h) = None"
  using Memory_dispatch_unbounded [of "emit (Raw m) q" m n S "array_push (data q) (Raw m) h"]
  by (simp add: Memory_cell_def Let_def)


text \<open>Whatever the four functions do, every array keeps what it holds and at most
  grows at its end; a push's own cell comes first.\<close>

lemma Memory_grows:
  "Memory_push n S item w = Some w' \<Longrightarrow>
     \<exists>rest. arrays (snd w') a =
       arrays (array_push (data (fst w)) (Memory_cell S (compressMessages (fst w)) item) (snd w)) a @ rest"
  "Memory_dispatch n S d ls w = Some w' \<Longrightarrow> \<exists>rest. arrays (snd w') a = arrays (snd w) a @ rest"
  "Memory_handleData n S d i w = Some w' \<Longrightarrow> \<exists>rest. arrays (snd w') a = arrays (snd w) a @ rest"
  "Memory_cancel n S w = Some w' \<Longrightarrow> \<exists>rest. arrays (snd w') a = arrays (snd w) a @ rest"
proof (induction n S item w and n S d ls w and n S d i w and n S w
    arbitrary: w' and w' and w' and w'
    rule: Memory_push_Memory_dispatch_Memory_handleData_Memory_cancel.induct)
  case (1 n S item q h)
  from "1.prems" "1.IH" [OF refl] show ?case
    by (simp add: Let_def)
next
  case (2 n S item w)
  then show ?case by simp
next
  case (3 n S item i rest w)
  from "3.prems" obtain w1 where
    a: "Memory_handleData n S item i w = Some w1" and b: "Memory_dispatch n S item rest w1 = Some w'"
    by (auto split: option.splits)
  from "3.IH"(1) [OF a] obtain r1 where r1: "arrays (snd w1) a = arrays (snd w) a @ r1" ..
  from "3.IH"(2) [OF a b] obtain r2 where r2: "arrays (snd w') a = arrays (snd w1) a @ r2" ..
  from r1 r2 show ?case by simp
next
  case (4 n S item i q h)
  show ?case
  proof (cases "handler_reads S (compressMessages q) item")
    case (Inl e)
    with "4.prems" show ?thesis by simp
  next
    case (Inr d)
    show ?thesis
    proof (cases "event d = ''__stream_cancel__''")
      case False
      with Inr "4.prems" show ?thesis by auto
    next
      case True
      with Inr "4.prems" obtain k q1 h1 where
        n: "n = Suc k"
        and c: "Memory_cancel k S (update_consumer i (buffer_item d) q, h) = Some (q1, h1)"
        and w': "w' = (update_consumer i resolve q1, h1)"
        by (auto split: nat.splits option.splits)
      from "4.IH" [OF Inr True n c] w' show ?thesis by simp
    qed
  qed
next
  case (5 n S q h)
  from "5.prems" have "Memory_push n S CancelEventMessage (abort q, h) = Some w'"
    by simp
  from "5.IH" [OF this] obtain r where
    "arrays (snd w') a =
       arrays (array_push (data q) (Memory_cell S (compressMessages q) CancelEventMessage) h) a @ r"
    by auto
  then show ?case by (simp add: array_push_def)
qed

lemma Memory_push_first_cell:
  assumes "Memory_push n S item (m, h) = Some w"
  shows "take (Suc (length (arrays h (data m)))) (arrays (snd w) (data m))
           = arrays h (data m) @ [Memory_cell S (compressMessages m) item]"
proof -
  from Memory_grows(1) [OF assms, of "data m"] obtain rest where
    "arrays (snd w) (data m) = (arrays h (data m) @ [Memory_cell S (compressMessages m) item]) @ rest"
    by (auto simp add: array_push_def)
  then show ?thesis by simp
qed

lemma Redis_push_eq:
  "Redis_push S item (q, r) =
     (q\<lparr>emitted := emitted q @ [Encoded (encodeData S item)]\<rparr>,
      r\<lparr>lists := (lists r)(queueKey q \<mapsto> redis_lRange (queueKey q) r @ [encodeData S item]),
        expiry := (expiry r)(queueKey q \<mapsto> ttl q),
        published := published r @ [(channelKey q, encodeData S item)]\<rparr>)"
  by (simp add: Redis_push_def emit_def redis_rPush_def redis_expire_def redis_publish_def Let_def)

lemma Redis_cancel_eq:
  "Redis_cancel S (q, r) =
     ((abort q)\<lparr>emitted := emitted q @ [Encoded (encodeData S CancelEventMessage)]\<rparr>,
      r\<lparr>lists := (lists r)(queueKey q \<mapsto>
           redis_lRange (queueKey q) r @ [encodeData S CancelEventMessage]),
        expiry := (expiry r)(queueKey q \<mapsto> ttl q),
        published := published r @ [(channelKey q, encodeData S CancelEventMessage)]\<rparr>)"
  by (simp add: Redis_cancel_def Redis_push_eq)


subsection \<open>The signal and the marker over steps\<close>














subsection \<open>Facts about the samples and the constructors\<close>

lemma RedisStreamQueue_new_fields:
  "queueKey (RedisStreamQueue_new i c t) = ''queue:'' @ i"
  "channelKey (RedisStreamQueue_new i c t) = ''channel:'' @ i"
  "compressMessages (RedisStreamQueue_new i c t) = c"
  "ttl (RedisStreamQueue_new i c t) = t"
  "cancelSignal (RedisStreamQueue_new i c t) = False"
  "consumers (RedisStreamQueue_new i c t) = []"
  by (simp_all add: RedisStreamQueue_new_def BaseStreamQueue.extend_def
      RedisStreamQueue_super_def BaseStreamQueue_new_def)

lemma MemoryStreamQueue_new_fields:
  "compressMessages (fst (MemoryStreamQueue_new i c t h)) = c"
  "cancelSignal (fst (MemoryStreamQueue_new i c t h)) = False"
  "consumers (fst (MemoryStreamQueue_new i c t h)) = []"
  "emitted (fst (MemoryStreamQueue_new i c t h)) = []"
  "arrays (snd (MemoryStreamQueue_new i c t h)) (data (fst (MemoryStreamQueue_new i c t h))) = []"
  by (simp_all add: MemoryStreamQueue_new_def new_array_def BaseStreamQueue_new_def
      BaseStreamQueue.extend_def)

lemma listeners_none [simp]: "consumers q = [] \<Longrightarrow> listeners q = []"
  by (simp add: listeners_def)

lemma sample_round_trip:
  "CHR ''|'' \<notin> set (event m) \<Longrightarrow> loadsTyped sample_serializer (dumpsTyped sample_serializer m) = Inr m"
  by (simp add: sample_serializer_def split_bar_def takeWhile_append dropWhile_append
      takeWhile_eq_all_conv[THEN iffD2] dropWhile_eq_Nil_conv[THEN iffD2])

lemma sample_states:
  "sample_fresh =
     (\<lparr>queue_id = ''run-1'', compressMessages = False, ttl = 300, cancelSignal = False,
        emitted = [], consumers = [], data = 0\<rparr>,
      \<lparr>arrays = (\<lambda>_. [])(0 := []), next_addr = 1\<rparr>)"
  "sample_shared =
     (\<lparr>queue_id = ''run-1'', compressMessages = True, ttl = 300, cancelSignal = False,
        emitted = [Encoded ''token|Hi''], consumers = [], queueKey = ''queue:run-1'',
        channelKey = ''channel:run-1'', isConnected = True\<rparr>,
      \<lparr>lists = [''queue:run-1'' \<mapsto> [''token|Hi'']], expiry = [''queue:run-1'' \<mapsto> 300],
        published = [(''channel:run-1'', ''token|Hi'')]\<rparr>)"
  by (simp_all add: sample_fresh_def sample_shared_def MemoryStreamQueue_new_def new_array_def
      empty_heap_def BaseStreamQueue_new_def BaseStreamQueue.extend_def Redis_push_eq
      RedisStreamQueue_new_def RedisStreamQueue_super_def empty_redis_def redis_lRange_def
      encodeData_def sample_serializer_def token_Hi_def)

lemma sample_tailed_state:
  "sample_tailed =
     (\<lparr>queue_id = ''run-1'', compressMessages = False, ttl = 300, cancelSignal = False,
        emitted = [],
        consumers = [\<lparr>queue_buf = [], pendingResolve = True, isStreamEnded = False,
                       position = Waiting, subscribed = True, abort_listener = True,
                       timeouts = 0\<rparr>],
        data = 0\<rparr>,
      \<lparr>arrays = (\<lambda>_. [])(0 := []), next_addr = 1\<rparr>)"
  by (simp add: sample_tailed_def sample_states Memory_attach_def Memory_onDataReceive_def
      tail_loop_def new_consumer_def)

lemma sample_local_results:
  "Memory_push n sample_serializer stream_end sample_fresh = Some sample_ended"
  "Memory_cancel n sample_serializer sample_fresh = Some sample_cancelled"
  by (simp_all add: sample_ended_def sample_cancelled_def sample_states Memory_cell_def Let_def)

lemma tail_nexts_finished:
  "position c = Finished \<Longrightarrow> Memory_nexts n q c = replicate n Return"
  "position c = Finished \<Longrightarrow> Redis_nexts n p c = replicate n Return"
  by (induction n) (simp_all add: Memory_onDataReceive_def Redis_onDataReceive_def tail_resume_def)

lemma tail_nexts_waiting:
  "position c = Waiting \<Longrightarrow> pendingResolve c \<Longrightarrow> Memory_nexts n q c = replicate n Suspend"
  "position c = Waiting \<Longrightarrow> pendingResolve c \<Longrightarrow> Redis_nexts n p c = replicate n Suspend"
  by (induction n) (simp_all add: Memory_onDataReceive_def Redis_onDataReceive_def tail_resume_def)

subsection \<open>Copies\<close>

text \<open>
  C1 (local backend). After pushing a, b, c, copying, pushing d to the source and e to
  the copy, both queues of the local backend read [a, b, c, d, e]: the copy holds the
  source's array itself, so each queue sees the other's later pushes.
\<close>

theorem Memory_copy_shares_array:
  "Memory_copy_scenario n S False a b c d e =
     Some (Inr [Raw a, Raw b, Raw c, Raw d, Raw e], Inr [Raw a, Raw b, Raw c, Raw d, Raw e])"
  by (simp add: Memory_copy_scenario_def Memory_copyToQueue_def
      MemoryStreamQueue_new_def Memory_getAll_def new_array_def array_push_def emit_def
      BaseStreamQueue_new_def empty_heap_def BaseStreamQueue.extend_def Memory_cell_def
      listeners_def Let_def)

text \<open>
  The same scenario on the shared backend, from an empty store: the two lists are
  independent, the source's holds a, b, c, d and the copy's holds a, b, c, e, encoded.
\<close>

lemma Redis_copy_independent:
  "Redis_copy_scenario S compress a b c d e =
     (map (dumpsTyped S) [a, b, c, d], map (dumpsTyped S) [a, b, c, e])"
  by (simp add: Redis_copy_scenario_def Redis_push_def Redis_copyToQueue_def
      RedisStreamQueue_new_def RedisStreamQueue_super_def BaseStreamQueue_new_def
      BaseStreamQueue.extend_def empty_redis_def redis_rPush_def redis_expire_def
      redis_publish_def redis_copy_def redis_lRange_def emit_def encodeData_def Let_def)

subsection \<open>Snapshot reads\<close>

lemma Memory_pushes_unheard:
  "consumers q = [] \<Longrightarrow>
   Memory_run n S (map Push ms) (q, h) =
     Some (q\<lparr>emitted := emitted q @ map (Memory_cell S (compressMessages q)) ms\<rparr>,
           h\<lparr>arrays := (arrays h)(data q :=
                arrays h (data q) @ map (Memory_cell S (compressMessages q)) ms)\<rparr>)"
proof (induction ms arbitrary: q h)
  case Nil
  then show ?case by simp
next
  case (Cons m ms)
  let ?d = "Memory_cell S (compressMessages q) m"
  let ?q1 = "emit ?d q"
  let ?h1 = "array_push (data q) ?d h"
  have step: "Memory_push n S m (q, h) = Some (?q1, ?h1)"
    using Cons.prems by (simp add: Memory_push_unheard del: Memory_push.simps)
  have c1: "consumers ?q1 = []"
    using Cons.prems by simp
  have q: "?q1\<lparr>emitted := emitted ?q1 @ map (Memory_cell S (compressMessages ?q1)) ms\<rparr>
           = q\<lparr>emitted := emitted q @ map (Memory_cell S (compressMessages q)) (m # ms)\<rparr>"
    by (simp add: emit_def)
  have h: "?h1\<lparr>arrays := (arrays ?h1)(data ?q1 :=
             arrays ?h1 (data ?q1) @ map (Memory_cell S (compressMessages ?q1)) ms)\<rparr>
           = h\<lparr>arrays := (arrays h)(data q :=
               arrays h (data q) @ map (Memory_cell S (compressMessages q)) (m # ms))\<rparr>"
    by (simp add: array_push_def)
  have "Memory_run n S (map Push (m # ms)) (q, h) = Memory_run n S (map Push ms) (?q1, ?h1)"
    using step by (simp del: Memory_push.simps)
  also have "\<dots> = Some (?q1\<lparr>emitted := emitted ?q1 @ map (Memory_cell S (compressMessages ?q1)) ms\<rparr>,
       ?h1\<lparr>arrays := (arrays ?h1)(data ?q1 :=
             arrays ?h1 (data ?q1) @ map (Memory_cell S (compressMessages ?q1)) ms)\<rparr>)"
    by (rule Cons.IH [OF c1])
  finally show ?case by (simp only: q h)
qed

lemma Redis_pushes_queue:
  "fst (Redis_run S (map Push ms) (q, r)) =
     q\<lparr>emitted := emitted q @ map (\<lambda>m. Encoded (encodeData S m)) ms\<rparr>"
  unfolding Redis_run_def
  by (induction ms arbitrary: q r) (simp_all add: Redis_push_eq)

lemma Redis_pushes_list:
  "queueKey q = k \<Longrightarrow>
   redis_lRange k (snd (Redis_run S (map Push ms) (q, r))) = redis_lRange k r @ map (encodeData S) ms"
  unfolding Redis_run_def
  by (induction ms arbitrary: q r) (simp_all add: Redis_push_eq redis_lRange_def)

lemma Redis_getAll_after_pushes:
  "Redis_getAll S (Redis_run S (map Push ms) (q, r)) =
     (let d = redis_lRange (queueKey q) r @ map (encodeData S) ms
      in if d = [] then Inr []
         else if compressMessages q then Promise_all (map (\<lambda>item. decodeData S (Encoded item)) d)
         else Promise_all (map (JSON_parse S) d))"
  by (simp add: Redis_getAll_def case_prod_beta Redis_pushes_queue Redis_pushes_list Let_def)

text \<open>
  Where the read decodes what the push encoded, the snapshot is what was pushed, in
  order: on the local backend under either flag and on the shared backend with the flag
  set, for messages the serializer round-trips pushed to a fresh queue with no consumer.
  With the flag off the shared backend reads each item with \<open>JSON.parse\<close>.
\<close>

lemma getAll_after_pushes:
  assumes rt: "\<forall>m\<in>set ms. loadsTyped S (dumpsTyped S m) = Inr m"
  shows "map_option (Memory_getAll S) (Memory_run n S (map Push ms) (MemoryStreamQueue_new i c t h))
           = Some (Inr (map Raw ms))"
    and "lists r (''queue:'' @ i) = None \<Longrightarrow>
           Redis_getAll S (Redis_run S (map Push ms) (RedisStreamQueue_new i True t, r)) = Inr ms"
    and "lists r (''queue:'' @ i) = None \<Longrightarrow>
           Redis_getAll S (Redis_run S (map Push ms) (RedisStreamQueue_new i False t, r))
             = Promise_all (map (\<lambda>m. JSON_parse S (dumpsTyped S m)) ms)"
proof -
  have dec: "Promise_all (map (\<lambda>m. decodeData S (Encoded (encodeData S m))) ms) = Inr (map (\<lambda>m. m) ms)"
    by (rule Promise_all_map_Inr) (use rt in \<open>simp add: encodeData_def\<close>)
  obtain q0 h0 where new: "MemoryStreamQueue_new i c t h = (q0, h0)"
    by (cases "MemoryStreamQueue_new i c t h")
  with MemoryStreamQueue_new_fields [of i c t h]
  have q0: "compressMessages q0 = c" "consumers q0 = []" "arrays h0 (data q0) = []"
    by simp_all
  show "map_option (Memory_getAll S) (Memory_run n S (map Push ms) (MemoryStreamQueue_new i c t h))
           = Some (Inr (map Raw ms))"
    unfolding new
    using dec q0
    by (cases c) (simp_all add: Memory_pushes_unheard Memory_getAll_def Memory_cell_def comp_def)
  show "Redis_getAll S (Redis_run S (map Push ms) (RedisStreamQueue_new i True t, r)) = Inr ms"
    if "lists r (''queue:'' @ i) = None"
    using that dec
    by (auto simp add: Redis_getAll_after_pushes RedisStreamQueue_new_fields redis_lRange_def
        comp_def Let_def)
  show "Redis_getAll S (Redis_run S (map Push ms) (RedisStreamQueue_new i False t, r))
               = Promise_all (map (\<lambda>m. JSON_parse S (dumpsTyped S m)) ms)"
    if "lists r (''queue:'' @ i) = None"
    using that
    by (auto simp add: Redis_getAll_after_pushes RedisStreamQueue_new_fields redis_lRange_def
        comp_def encodeData_def Let_def)
qed

text \<open>With the serializer that writes JSON text, the read with the flag off returns the
  pushed message.\<close>

lemma json_flag_off_read:
  "Redis_getAll json_serializer
     (Redis_push json_serializer token_Hi (RedisStreamQueue_new ''run-1'' False 300, empty_redis))
   = Inr [token_Hi]"
  by (simp add: Redis_push_eq Redis_getAll_def RedisStreamQueue_new_fields empty_redis_def
      redis_lRange_def encodeData_def json_serializer_def host_JSON_parse_def strip_prefix_def
      token_Hi_def)


subsection \<open>Push on the shared backend\<close>

text \<open>
  C8. A push on the shared backend appends the serializer's encoding of the item to the
  end of the list under the queue's key, sets that key's expiry to the queue's ttl, and
  publishes the same bytes on the queue's channel. So the sample push of the token
  message on \<open>run-1\<close> leaves the bytes \<open>token|Hi\<close> in the list and on the channel, and
  the expiry 300.
\<close>

theorem Redis_push_three_effects:
  "redis_lRange (queueKey q) (snd (Redis_push S item (q, r)))
     = redis_lRange (queueKey q) r @ [dumpsTyped S item]
   \<and> expiry (snd (Redis_push S item (q, r))) (queueKey q) = Some (ttl q)
   \<and> published (snd (Redis_push S item (q, r))) = published r @ [(channelKey q, dumpsTyped S item)]
   \<and> redis_lRange ''queue:run-1'' (snd sample_shared) = [''token|Hi'']
   \<and> expiry (snd sample_shared) ''queue:run-1'' = Some 300
   \<and> published (snd sample_shared) = [(''channel:run-1'', ''token|Hi'')]"
  by (simp add: Redis_push_eq redis_lRange_def encodeData_def sample_states)

text \<open>
  C10. What a push on the shared backend does to the store does not depend on the
  queue's flag: a queue constructed with \<open>compressMessages = false\<close> keeps that value
  (the base constructor was given \<open>true\<close>) and still stores and publishes the encoding.
  On the local backend the stored cell is the item itself when the flag is off and its
  encoding when it is on: that cell is what a push that has a result has appended first,
  and with no consumer on the queue it is all the push appends.
\<close>

theorem Redis_push_encodes_whatever_the_flag:
  "snd (Redis_push S item (q\<lparr>compressMessages := False\<rparr>, r))
     = snd (Redis_push S item (q\<lparr>compressMessages := True\<rparr>, r))
   \<and> compressMessages (RedisStreamQueue_super i t) = True
   \<and> compressMessages (RedisStreamQueue_new i False t) = False
   \<and> redis_lRange (''queue:'' @ i) (snd (Redis_push S item (RedisStreamQueue_new i False t, r)))
       = redis_lRange (''queue:'' @ i) r @ [dumpsTyped S item]
   \<and> published (snd (Redis_push S item (RedisStreamQueue_new i False t, r)))
       = published r @ [(''channel:'' @ i, dumpsTyped S item)]
   \<and> Memory_cell S False item = Raw item
   \<and> Memory_cell S True item = Encoded (dumpsTyped S item)
   \<and> (Memory_push n S item (m, h) = Some w \<longrightarrow>
        take (Suc (length (arrays h (data m)))) (arrays (snd w) (data m))
          = arrays h (data m) @ [Memory_cell S (compressMessages m) item])
   \<and> map_option (\<lambda>w. arrays (snd w) (data m))
        (Memory_push n S item (m\<lparr>compressMessages := False, consumers := []\<rparr>, h))
       = Some (arrays h (data m) @ [Raw item])
   \<and> map_option (\<lambda>w. arrays (snd w) (data m))
        (Memory_push n S item (m\<lparr>compressMessages := True, consumers := []\<rparr>, h))
       = Some (arrays h (data m) @ [Encoded (dumpsTyped S item)])"
proof -
  have first: "Memory_push n S item (m, h) = Some w \<longrightarrow>
        take (Suc (length (arrays h (data m)))) (arrays (snd w) (data m))
          = arrays h (data m) @ [Memory_cell S (compressMessages m) item]"
    using Memory_push_first_cell [of n S item m h w] by blast
  have rest: "snd (Redis_push S item (q\<lparr>compressMessages := False\<rparr>, r))
     = snd (Redis_push S item (q\<lparr>compressMessages := True\<rparr>, r))
   \<and> compressMessages (RedisStreamQueue_super i t) = True
   \<and> compressMessages (RedisStreamQueue_new i False t) = False
   \<and> redis_lRange (''queue:'' @ i) (snd (Redis_push S item (RedisStreamQueue_new i False t, r)))
       = redis_lRange (''queue:'' @ i) r @ [dumpsTyped S item]
   \<and> published (snd (Redis_push S item (RedisStreamQueue_new i False t, r)))
       = published r @ [(''channel:'' @ i, dumpsTyped S item)]
   \<and> Memory_cell S False item = Raw item
   \<and> Memory_cell S True item = Encoded (dumpsTyped S item)
   \<and> map_option (\<lambda>w. arrays (snd w) (data m))
        (Memory_push n S item (m\<lparr>compressMessages := False, consumers := []\<rparr>, h))
       = Some (arrays h (data m) @ [Raw item])
   \<and> map_option (\<lambda>w. arrays (snd w) (data m))
        (Memory_push n S item (m\<lparr>compressMessages := True, consumers := []\<rparr>, h))
       = Some (arrays h (data m) @ [Encoded (dumpsTyped S item)])"
    by (simp add: Redis_push_eq RedisStreamQueue_new_fields redis_lRange_def
        RedisStreamQueue_super_def BaseStreamQueue_new_def Memory_cell_def encodeData_def
        array_push_def Let_def)
  from first rest show ?thesis by blast
qed

theorem Redis_push_encodes_whatever_the_flag_witness:
  "listeners (fst sample_tailed) = [0]
   \<and> Memory_push 0 sample_serializer token_Hi sample_tailed
       = Some (update_consumer 0 resolve
                 (update_consumer 0 (buffer_item token_Hi) (emit (Raw token_Hi) (fst sample_tailed))),
               array_push 0 (Raw token_Hi) (snd sample_tailed))
   \<and> take (Suc (length (arrays (snd sample_tailed) (data (fst sample_tailed)))))
        (arrays (array_push 0 (Raw token_Hi) (snd sample_tailed)) (data (fst sample_tailed)))
       = [Raw token_Hi]"
proof -
  define q where "q = fst sample_tailed"
  define h where "h = snd sample_tailed"
  have qh: "sample_tailed = (q, h)"
    by (simp add: q_def h_def)
  have a: "listeners q = [0]"
    and c: "arrays h (data q) = []" "compressMessages q = False" "data q = 0"
    by (simp_all add: q_def h_def sample_tailed_state listeners_def)
  have b: "Memory_push 0 sample_serializer token_Hi (q, h)
       = Some (update_consumer 0 resolve (update_consumer 0 (buffer_item token_Hi) (emit (Raw token_Hi) q)),
               array_push 0 (Raw token_Hi) h)"
    by (simp add: a c Memory_cell_def handler_reads_def token_Hi_def Let_def)
  from b c Redis_push_encodes_whatever_the_flag
      [of sample_serializer token_Hi _ _ _ _ 0 q h
          "(update_consumer 0 resolve (update_consumer 0 (buffer_item token_Hi) (emit (Raw token_Hi) q)),
            array_push 0 (Raw token_Hi) h)"]
  have "take (Suc (length (arrays h (data q)))) (arrays (array_push 0 (Raw token_Hi) h) (data q))
       = [Raw token_Hi]"
    by (simp add: Memory_cell_def del: Memory_push.simps)
  with a b show ?thesis
    by (simp add: qh del: Memory_push.simps)
qed

subsection \<open>Cancellation\<close>

text \<open>
  On a queue with no subscribed consumer, and on the shared backend, \<open>cancel\<close> sets the
  signal and appends the marker once; on a queue whose signal is already set it changes
  nothing but what the push of the marker changes.
\<close>

lemma cancel_without_listener:
  "listeners q = [] \<Longrightarrow>
   Memory_cancel n S (q, h) =
     Some ((abort q)\<lparr>emitted := emitted q @ [Memory_cell S (compressMessages q) CancelEventMessage]\<rparr>,
           h\<lparr>arrays := (arrays h)(data q :=
                arrays h (data q) @ [Memory_cell S (compressMessages q) CancelEventMessage])\<rparr>)"
  "listeners q = [] \<Longrightarrow> cancelSignal q \<Longrightarrow>
   Memory_cancel n S (q, h) =
     Some (q\<lparr>emitted := emitted q @ [Memory_cell S (compressMessages q) CancelEventMessage]\<rparr>,
           h\<lparr>arrays := (arrays h)(data q :=
                arrays h (data q) @ [Memory_cell S (compressMessages q) CancelEventMessage])\<rparr>)"
  "cancelSignal p \<Longrightarrow>
   Redis_cancel S (p, r) =
     (p\<lparr>emitted := emitted p @ [Encoded (encodeData S CancelEventMessage)]\<rparr>,
      r\<lparr>lists := (lists r)(queueKey p \<mapsto>
           redis_lRange (queueKey p) r @ [encodeData S CancelEventMessage]),
        expiry := (expiry r)(queueKey p \<mapsto> ttl p),
        published := published r @ [(channelKey p, encodeData S CancelEventMessage)]\<rparr>)"
  by (simp_all add: Redis_cancel_eq emit_def array_push_def Let_def)

text \<open>
  C5 (local backend, a consumer subscribed). On the fresh sample queue \<open>cancel\<close> sets the
  signal and appends the marker once. On the same queue with one live-tail consumer
  subscribed, the marker's emit runs the consumer's handler inside the push, the
  handler calls \<open>cancel\<close> again, and that repeats: whatever depth is allowed, \<open>cancel\<close>
  has no result.
\<close>

theorem cancel_reenters_through_subscribed_handler:
  "Memory_cancel n sample_serializer sample_fresh = Some sample_cancelled
   \<and> cancelSignal (fst sample_cancelled)
   \<and> arrays (snd sample_cancelled) (data (fst sample_cancelled)) = [Raw CancelEventMessage]
   \<and> sample_tailed = Memory_attach sample_fresh
   \<and> listeners (fst sample_tailed) = [0]
   \<and> Memory_cancel n sample_serializer sample_tailed = None"
proof -
  have a: "\<not> compressMessages (fst sample_tailed)" "listeners (fst sample_tailed) = [0]"
    by (simp_all add: sample_tailed_state listeners_def)
  have "Memory_cancel n sample_serializer (fst sample_tailed, snd sample_tailed) = None"
    using a by (intro Memory_cancel_unbounded) simp_all
  then have b: "Memory_cancel n sample_serializer sample_tailed = None"
    by (simp del: Memory_cancel.simps)
  have c: "Memory_cancel n sample_serializer sample_fresh = Some sample_cancelled"
    by (rule sample_local_results)
  have d: "cancelSignal (fst sample_cancelled)"
    "arrays (snd sample_cancelled) (data (fst sample_cancelled)) = [Raw CancelEventMessage]"
    by (simp_all add: sample_cancelled_def sample_states array_push_def)
  have e: "sample_tailed = Memory_attach sample_fresh"
    by (rule sample_tailed_def)
  from a b c d e show ?thesis by blast
qed

subsection \<open>The cancellation signal over sequences of steps\<close>




subsection \<open>The live tail\<close>

text \<open>
  C7. If the queue's signal is set when \<open>onDataReceive\<close> is called, the generator
  returns on its first step without subscribing or suspending, and every further step
  returns as well, so it yields nothing; this holds on both backends.
\<close>

theorem aborted_tail_returns_at_once:
  "(cancelSignal q \<longrightarrow>
      Memory_onDataReceive q new_consumer = (Return, new_consumer\<lparr>position := Finished\<rparr>)
      \<and> \<not> subscribed (snd (Memory_onDataReceive q new_consumer))
      \<and> Memory_nexts n q new_consumer = replicate n Return)
   \<and> (cancelSignal p \<longrightarrow>
      Redis_onDataReceive p new_consumer = (Return, new_consumer\<lparr>position := Finished\<rparr>)
      \<and> \<not> subscribed (snd (Redis_onDataReceive p new_consumer))
      \<and> Redis_nexts n p new_consumer = replicate n Return)"
proof -
  have m: "Memory_nexts n q new_consumer = replicate n Return" if "cancelSignal q"
  proof (cases n)
    case 0 then show ?thesis by simp
  next
    case (Suc k)
    have "Memory_onDataReceive q new_consumer = (Return, new_consumer\<lparr>position := Finished\<rparr>)"
      using that by (simp add: Memory_onDataReceive_def new_consumer_def)
    then show ?thesis using Suc by (simp add: tail_nexts_finished)
  qed
  have r: "Redis_nexts n p new_consumer = replicate n Return" if "cancelSignal p"
  proof (cases n)
    case 0 then show ?thesis by simp
  next
    case (Suc k)
    have "Redis_onDataReceive p new_consumer = (Return, new_consumer\<lparr>position := Finished\<rparr>)"
      using that by (simp add: Redis_onDataReceive_def new_consumer_def)
    then show ?thesis using Suc by (simp add: tail_nexts_finished)
  qed
  show ?thesis using m r
    by (simp add: Memory_onDataReceive_def Redis_onDataReceive_def new_consumer_def)
qed

theorem aborted_tail_returns_at_once_witness:
  "Memory_cancel 0 sample_serializer sample_fresh = Some sample_cancelled
   \<and> cancelSignal (fst sample_cancelled) \<and> cancelSignal (fst sample_shared_cancelled)
   \<and> Memory_nexts 3 (fst sample_cancelled) new_consumer = [Return, Return, Return]
   \<and> Redis_nexts 3 (fst sample_shared_cancelled) new_consumer = [Return, Return, Return]"
proof -
  have a: "cancelSignal (fst sample_cancelled)"
    by (simp add: sample_cancelled_def sample_states)
  have b: "cancelSignal (fst sample_shared_cancelled)"
    by (simp add: sample_shared_cancelled_def sample_states Redis_cancel_eq)
  have c: "replicate 3 Return = [Return, Return, Return]"
    by (simp add: numeral_3_eq_3)
  have d: "Memory_cancel 0 sample_serializer sample_fresh = Some sample_cancelled"
    by (rule sample_local_results)
  show ?thesis
    using a b d aborted_tail_returns_at_once
      [of "fst sample_cancelled" 3 "fst sample_shared_cancelled"]
    by (simp add: c)
qed

text \<open>
  C3 as stated fails: a local queue whose log ends in the pushed \<open>__stream_end__\<close> event,
  and whose signal is not set, gives a consumer that suspends instead of terminating.
\<close>

theorem late_joiner_counterexample:
  "Memory_push 0 sample_serializer stream_end sample_fresh = Some sample_ended
   \<and> ends_terminal sample_serializer (arrays (snd sample_ended) (data (fst sample_ended)))
   \<and> fst (Memory_onDataReceive (fst sample_ended) new_consumer) = Suspend
   \<and> Memory_nexts 3 (fst sample_ended) new_consumer = [Suspend, Suspend, Suspend]"
proof -
  have a: "Memory_push 0 sample_serializer stream_end sample_fresh = Some sample_ended"
    by (rule sample_local_results)
  have b: "ends_terminal sample_serializer (arrays (snd sample_ended) (data (fst sample_ended)))
   \<and> fst (Memory_onDataReceive (fst sample_ended) new_consumer) = Suspend
   \<and> Memory_nexts 3 (fst sample_ended) new_consumer = [Suspend, Suspend, Suspend]"
    by (simp add: sample_ended_def sample_states emit_def array_push_def ends_terminal_def
        is_terminal_def stream_end_def Memory_onDataReceive_def tail_loop_def
        tail_resume_def new_consumer_def numeral_3_eq_3)
  from a b show ?thesis by blast
qed

text \<open>
  C3, as amended. For a queue whose log already ends in a terminal control event when
  \<open>onDataReceive\<close> is called, the consumer is given no event of the existing log. If the
  queue's signal is set, every step returns; if it is not, the consumer subscribes with
  an empty buffer and every step suspends, as long as no later push or cancel arrives.
\<close>

theorem late_joiner_sees_no_event:
  "(ends_terminal S (arrays h (data q)) \<longrightarrow>
      (cancelSignal q \<longrightarrow> Memory_nexts n q new_consumer = replicate n Return)
      \<and> (\<not> cancelSignal q \<longrightarrow>
           Memory_nexts n q new_consumer = replicate n Suspend
           \<and> subscribed (snd (Memory_onDataReceive q new_consumer))
           \<and> queue_buf (snd (Memory_onDataReceive q new_consumer)) = []))
   \<and> (ends_terminal S (map Encoded (redis_lRange (queueKey p) r)) \<longrightarrow>
      (cancelSignal p \<longrightarrow> Redis_nexts n p new_consumer = replicate n Return)
      \<and> (\<not> cancelSignal p \<longrightarrow>
           Redis_nexts n p new_consumer = replicate n Suspend
           \<and> subscribed (snd (Redis_onDataReceive p new_consumer))
           \<and> queue_buf (snd (Redis_onDataReceive p new_consumer)) = []))"
proof -
  have m1: "Memory_nexts n q new_consumer = replicate n Return" if "cancelSignal q"
    using that
    by (cases n) (simp_all add: Memory_onDataReceive_def new_consumer_def tail_nexts_finished)
  have m2: "Memory_nexts n q new_consumer = replicate n Suspend" if "\<not> cancelSignal q"
    using that
    by (cases n)
       (simp_all add: Memory_onDataReceive_def new_consumer_def tail_loop_def tail_nexts_waiting)
  have r1: "Redis_nexts n p new_consumer = replicate n Return" if "cancelSignal p"
    using that
    by (cases n) (simp_all add: Redis_onDataReceive_def new_consumer_def tail_nexts_finished)
  have r2: "Redis_nexts n p new_consumer = replicate n Suspend" if "\<not> cancelSignal p"
  proof (cases n)
    case 0 then show ?thesis by simp
  next
    case (Suc k)
    then show ?thesis using that
      by (cases k)
         (simp_all add: Redis_onDataReceive_def new_consumer_def tail_loop_def tail_nexts_waiting)
  qed
  show ?thesis using m1 m2 r1 r2
    by (simp add: Memory_onDataReceive_def Redis_onDataReceive_def new_consumer_def tail_loop_def)
qed

theorem late_joiner_sees_no_event_witness:
  "ends_terminal sample_serializer (arrays (snd sample_ended) (data (fst sample_ended)))
   \<and> \<not> cancelSignal (fst sample_ended)
   \<and> Memory_nexts 2 (fst sample_ended) new_consumer = [Suspend, Suspend]
   \<and> subscribed (snd (Memory_onDataReceive (fst sample_ended) new_consumer))
   \<and> ends_terminal sample_serializer
       (map Encoded (redis_lRange (queueKey (fst sample_shared_cancelled)) (snd sample_shared_cancelled)))
   \<and> cancelSignal (fst sample_shared_cancelled)
   \<and> Redis_nexts 2 (fst sample_shared_cancelled) new_consumer = [Return, Return]"
proof -
  have a: "ends_terminal sample_serializer (arrays (snd sample_ended) (data (fst sample_ended)))"
      and b: "\<not> cancelSignal (fst sample_ended)"
    by (simp_all add: sample_ended_def sample_states emit_def array_push_def
        ends_terminal_def is_terminal_def stream_end_def)
  have c: "ends_terminal sample_serializer
       (map Encoded (redis_lRange (queueKey (fst sample_shared_cancelled)) (snd sample_shared_cancelled)))"
      and d: "cancelSignal (fst sample_shared_cancelled)"
    by (simp_all add: sample_shared_cancelled_def sample_states Redis_cancel_eq redis_lRange_def
        ends_terminal_def is_terminal_def encodeData_def
        sample_serializer_def split_bar_def CancelEventMessage_def abort_def emit_def)
  show ?thesis
    using a b c d late_joiner_sees_no_event
      [of sample_serializer "snd sample_ended" "fst sample_ended" 2
          "fst sample_shared_cancelled" "snd sample_shared_cancelled"]
    by (simp add: numeral_2_eq_2)
qed


subsection \<open>The manager\<close>

text \<open>
  C6. \<open>getQueue\<close> returns the registered queue when there is one, leaving registry and
  backend as they are; for an unregistered id that the class's existence check confirms
  it constructs a queue (default flag, ttl 300), registers it under the id and returns
  it; for an unregistered id that is not confirmed it fails with QueueNotFound. So a
  queue is returned only for an id that is registered or confirmed. The local class has
  no existence check, so there every unregistered id fails; the shared class confirms
  exactly the ids whose key is in the store.
\<close>

theorem getQueue_registered_or_confirmed_or_fails:
  "(queues M i = Some queue \<longrightarrow> getQueue K i (M, w) = Inr (queue, M, w))
   \<and> (queues M i = None \<and> backend_confirms K i w \<longrightarrow>
        getQueue K i (M, w)
          = Inr (fst (construct K i (defaultCompressMessages M) 300 w),
                 M\<lparr>queues := (queues M)(i \<mapsto> fst (construct K i (defaultCompressMessages M) 300 w))\<rparr>,
                 snd (construct K i (defaultCompressMessages M) 300 w)))
   \<and> (queues M i = None \<and> \<not> backend_confirms K i w \<longrightarrow> getQueue K i (M, w) = Inl QueueNotFound)
   \<and> (\<forall>res. getQueue K i (M, w) = Inr res \<longrightarrow> queues M i \<noteq> None \<or> backend_confirms K i w)
   \<and> \<not> backend_confirms (Memory_class n S) i h
   \<and> backend_confirms (Redis_class S) i r = (lists r (''queue:'' @ i) \<noteq> None)"
proof -
  have never: "\<forall>res. getQueue K i (M, w) = Inr res \<longrightarrow> queues M i \<noteq> None \<or> backend_confirms K i w"
    by (simp add: getQueue_def split: option.splits if_splits)
  have classes: "\<not> backend_confirms (Memory_class n S) i h"
    "backend_confirms (Redis_class S) i r = (lists r (''queue:'' @ i) \<noteq> None)"
    by (simp_all add: backend_confirms_def Memory_class_def Redis_class_def isQueueExist_def
        redis_exists_def)
  show ?thesis using never classes
    by (simp add: getQueue_def createQueue_def case_prod_beta)
qed

theorem getQueue_registered_or_confirmed_or_fails_witness:
  "queues (StreamQueueManager_new None :: RedisStreamQueue StreamQueueManager) ''run-1'' = None
   \<and> backend_confirms (Redis_class sample_serializer) ''run-1'' (snd sample_shared)
   \<and> getQueue (Redis_class sample_serializer) ''run-1'' (StreamQueueManager_new None, snd sample_shared)
       = Inr (RedisStreamQueue_new ''run-1'' True 300,
              \<lparr>queues = [''run-1'' \<mapsto> RedisStreamQueue_new ''run-1'' True 300],
               defaultCompressMessages = True, removals = []\<rparr>,
              snd sample_shared)
   \<and> \<not> backend_confirms (Redis_class sample_serializer) ''run-2'' (snd sample_shared)
   \<and> getQueue (Redis_class sample_serializer) ''run-2'' (StreamQueueManager_new None, snd sample_shared)
       = Inl QueueNotFound
   \<and> getQueue (Memory_class 0 sample_serializer) ''run-1''
        (StreamQueueManager_new None, snd sample_fresh) = Inl QueueNotFound
   \<and> getQueue (Memory_class 0 sample_serializer) ''run-1''
        ((StreamQueueManager_new None)\<lparr>queues := [''run-1'' \<mapsto> fst sample_fresh]\<rparr>, snd sample_fresh)
       = Inr (fst sample_fresh,
              (StreamQueueManager_new None)\<lparr>queues := [''run-1'' \<mapsto> fst sample_fresh]\<rparr>,
              snd sample_fresh)"
proof -
  let ?M = "StreamQueueManager_new None :: RedisStreamQueue StreamQueueManager"
  let ?L = "StreamQueueManager_new None :: MemoryStreamQueue StreamQueueManager"
  have a: "queues ?M ''run-1'' = None" "queues ?M ''run-2'' = None" "queues ?L ''run-1'' = None"
    by (simp_all add: StreamQueueManager_new_def)
  have b: "backend_confirms (Redis_class sample_serializer) ''run-1'' (snd sample_shared)"
    and c: "\<not> backend_confirms (Redis_class sample_serializer) ''run-2'' (snd sample_shared)"
    and d: "\<not> backend_confirms (Memory_class 0 sample_serializer) ''run-1'' (snd sample_fresh)"
    by (simp_all add: backend_confirms_def Redis_class_def Memory_class_def isQueueExist_def
        redis_exists_def sample_states)
  show ?thesis
    using a b c d
      getQueue_registered_or_confirmed_or_fails
        [of ?M "''run-1''" "fst sample_shared" "Redis_class sample_serializer" "snd sample_shared"]
      getQueue_registered_or_confirmed_or_fails
        [of ?M "''run-2''" "fst sample_shared" "Redis_class sample_serializer" "snd sample_shared"]
      getQueue_registered_or_confirmed_or_fails
        [of ?L "''run-1''" "fst sample_fresh" "Memory_class 0 sample_serializer" "snd sample_fresh"]
      getQueue_registered_or_confirmed_or_fails
        [of "?L\<lparr>queues := [''run-1'' \<mapsto> fst sample_fresh]\<rparr>" "''run-1''" "fst sample_fresh"
            "Memory_class 0 sample_serializer" "snd sample_fresh"]
    by (simp add: Redis_class_def StreamQueueManager_new_def)
qed

text \<open>
  C9. For an id that is not in the registry, \<open>cancelQueue\<close> and \<open>clearQueue\<close> return
  with the registry, the pending removals and the backend all unchanged, whatever the
  queue class and whatever the backend holds under that id.
\<close>

theorem unregistered_cancel_and_clear_do_nothing:
  "queues M i = None \<Longrightarrow> cancelQueue K i (M, w) = Some (M, w) \<and> clearQueue K i (M, w) = (M, w)"
  by (simp add: cancelQueue_def clearQueue_def)

theorem unregistered_cancel_and_clear_do_nothing_witness:
  "queues (StreamQueueManager_new None :: RedisStreamQueue StreamQueueManager) ''run-1'' = None
   \<and> isQueueExist ''run-1'' (snd sample_shared)
   \<and> cancelQueue (Redis_class sample_serializer) ''run-1'' (StreamQueueManager_new None, snd sample_shared)
       = Some (StreamQueueManager_new None, snd sample_shared)
   \<and> clearQueue (Redis_class sample_serializer) ''run-1'' (StreamQueueManager_new None, snd sample_shared)
       = (StreamQueueManager_new None, snd sample_shared)"
proof -
  have a: "queues (StreamQueueManager_new None :: RedisStreamQueue StreamQueueManager) ''run-1'' = None"
    by (simp add: StreamQueueManager_new_def)
  have b: "isQueueExist ''run-1'' (snd sample_shared)"
    by (simp add: isQueueExist_def redis_exists_def sample_states)
  show ?thesis
    using a b unregistered_cancel_and_clear_do_nothing
      [OF a, of "Redis_class sample_serializer" "snd sample_shared"]
    by simp
qed

end
